theory Spec2Isabelle
  imports Complex_Main "HOL-Library.Word"
begin

section \<open>The import function \<open>import-google-sheets\<close>\<close>

text \<open>
  A shallow embedding of \<^verbatim>\<open>supabase/functions/import-google-sheets/index.ts\<close>:
  the two cell parsers, the note builder, the row normalizer, the batching helper and
  the request handler with the store it writes to.
\<close>

subsection \<open>Strings\<close>

text \<open>
  A JavaScript string is a sequence of 16-bit code units. \<open>js\<close> turns an ASCII literal
  into one; a code unit outside ASCII is written by its number.
\<close>

type_synonym jsstring = "16 word list"

definition js :: "string \<Rightarrow> jsstring" where
  "js s = map of_char s"

text \<open>\<^verbatim>\<open>\d\<close> in a regular expression without the unicode flag: \<^verbatim>\<open>0\<close> to \<^verbatim>\<open>9\<close> only.\<close>

definition isDigit :: "16 word \<Rightarrow> bool" where
  "isDigit c \<longleftrightarrow> 48 \<le> c \<and> c \<le> 57"

text \<open>
  What \<^verbatim>\<open>String.prototype.trim\<close> strips: the code units of ECMAScript's WhiteSpace and
  LineTerminator productions (tab, LF, VT, FF, CR, space, NBSP, U+1680, U+2000 to U+200A,
  U+2028, U+2029, U+202F, U+205F, U+3000, U+FEFF).
\<close>

definition isWhiteSpace :: "16 word \<Rightarrow> bool" where
  "isWhiteSpace c \<longleftrightarrow>
     c = 9 \<or> c = 10 \<or> c = 11 \<or> c = 12 \<or> c = 13 \<or> c = 32 \<or> c = 160 \<or> c = 5760 \<or>
     (8192 \<le> c \<and> c \<le> 8202) \<or> c = 8232 \<or> c = 8233 \<or> c = 8239 \<or> c = 8287 \<or>
     c = 12288 \<or> c = 65279"

definition trim :: "jsstring \<Rightarrow> jsstring" where
  "trim s = rev (dropWhile isWhiteSpace (rev (dropWhile isWhiteSpace s)))"

text \<open>
  \<^verbatim>\<open>cell?.trim() || null\<close> on a cell that may be \<^verbatim>\<open>undefined\<close>: the trimmed text
  when it is not empty, \<^verbatim>\<open>null\<close> otherwise.
\<close>

definition trimOrNull :: "jsstring option \<Rightarrow> jsstring option" where
  "trimOrNull cell =
     (case cell of
        None \<Rightarrow> None
      | Some v \<Rightarrow> (if trim v = [] then None else Some (trim v)))"

subsection \<open>Numbers\<close>

text \<open>
  A JavaScript number is an IEEE 754 binary64 value. A finite one is represented by the
  rational it denotes (\<open>-0\<close> and \<open>0\<close> are one value here: the code only compares them
  with \<^verbatim>\<open>===\<close> and \<^verbatim>\<open>!==\<close>, which do not tell them apart).
\<close>

datatype number = NaN | PosInfinity | NegInfinity | Finite rat

text \<open>The number of binary digits of a positive integer.\<close>

function bitlen :: "int \<Rightarrow> nat" where
  "bitlen n = (if n \<le> 0 then 0 else Suc (bitlen (n div 2)))"
  by pat_completeness auto
termination
  by (relation "measure nat") auto

declare bitlen.simps [simp del]

definition pow2 :: "int \<Rightarrow> rat" where
  "pow2 k = (if 0 \<le> k then 2 ^ nat k else 1 / 2 ^ nat (- k))"

text \<open>For \<open>0 < a\<close>, the \<open>e\<close> with \<open>2 ^ e \<le> a < 2 ^ (e + 1)\<close>.\<close>

definition floorLog2 :: "rat \<Rightarrow> int" where
  "floorLog2 a =
     (let (n, d) = quotient_of a;
          e0 = int (bitlen n) - int (bitlen d)
      in if pow2 e0 \<le> a then e0 else e0 - 1)"

definition roundHalfEven :: "rat \<Rightarrow> int" where
  "roundHalfEven x =
     (let f = \<lfloor>x\<rfloor>; r = x - of_int f
      in if r < 1 / 2 then f
         else if 1 / 2 < r then f + 1
         else if even f then f else f + 1)"

text \<open>
  The binary64 value nearest to a rational, ties to even: 53 significant bits, the
  least exponent of a unit in the last place is \<open>-1074\<close> (subnormals), and a result of
  \<open>2 ^ 1024\<close> or more is an infinity. \<open>overflowBound\<close> is \<open>2 ^ 1024\<close>, written as a
  power of a power so that it evaluates in few steps.
\<close>

definition overflowBound :: rat where
  "overflowBound = (2 ^ 32) ^ 32"

definition roundBinary64 :: "rat \<Rightarrow> number" where
  "roundBinary64 q =
     (if q = 0 then Finite 0
      else
        let a = \<bar>q\<bar>;
            p = max (floorLog2 a - 52) (- 1074);
            r = of_int (roundHalfEven (a / pow2 p)) * pow2 p
        in if overflowBound \<le> r then (if q < 0 then NegInfinity else PosInfinity)
           else Finite (if q < 0 then - r else r))"

fun digitsValue :: "jsstring \<Rightarrow> int \<Rightarrow> int" where
  "digitsValue [] acc = acc"
| "digitsValue (c # cs) acc = digitsValue cs (10 * acc + uint (c - 48))"

text \<open>
  \<^verbatim>\<open>Number.parseFloat\<close> on a text made of digits, \<^verbatim>\<open>.\<close> and \<^verbatim>\<open>-\<close> (all that
  \<open>parseCurrency\<close> leaves in the text it passes): the longest prefix that is a
  decimal literal, that is an optional \<^verbatim>\<open>-\<close>, then digits with an optional \<^verbatim>\<open>.\<close> and
  more digits, or a \<^verbatim>\<open>.\<close> and at least one digit; \<open>NaN\<close> when there is no such prefix.
\<close>

definition parseFloat :: "jsstring \<Rightarrow> number" where
  "parseFloat s =
     (let neg = (s \<noteq> [] \<and> hd s = 45);
          body = (if neg then tl s else s);
          ip = takeWhile isDigit body;
          rest = dropWhile isDigit body;
          fp = (if rest \<noteq> [] \<and> hd rest = 46 then takeWhile isDigit (tl rest) else [])
      in if ip = [] \<and> fp = [] then NaN
         else
           let mv = of_int (digitsValue (ip @ fp) 0) / 10 ^ length fp
           in roundBinary64 (if neg then - mv else mv))"

subsection \<open>The cell parsers\<close>

text \<open>\<^verbatim>\<open>value.replace(/\./g, "")\<close>, \<^verbatim>\<open>.replace(",", ".")\<close> (the first comma only) and
  \<^verbatim>\<open>.replace(/[^\d.-]/g, "")\<close>.\<close>

definition removeDots :: "jsstring \<Rightarrow> jsstring" where
  "removeDots s = filter (\<lambda>c. c \<noteq> 46) s"

definition replaceFirstComma :: "jsstring \<Rightarrow> jsstring" where
  "replaceFirstComma s =
     (case dropWhile (\<lambda>c. c \<noteq> 44) s of
        [] \<Rightarrow> s
      | _ # t \<Rightarrow> takeWhile (\<lambda>c. c \<noteq> 44) s @ 46 # t)"

definition keepNumeric :: "jsstring \<Rightarrow> jsstring" where
  "keepNumeric s = filter (\<lambda>c. isDigit c \<or> c = 46 \<or> c = 45) s"

definition normalized :: "jsstring \<Rightarrow> jsstring" where
  "normalized v = keepNumeric (replaceFirstComma (removeDots v))"

text \<open>\<^verbatim>\<open>Number.isFinite(parsed) ? parsed : 0\<close>.\<close>

definition finiteOrZero :: "number \<Rightarrow> rat" where
  "finiteOrZero parsed = (case parsed of Finite q \<Rightarrow> q | _ \<Rightarrow> 0)"

definition parseCurrency :: "jsstring option \<Rightarrow> rat" where
  "parseCurrency val =
     (case val of
        None \<Rightarrow> 0
      | Some v \<Rightarrow>
          if v = [] then 0
          else finiteOrZero (parseFloat (normalized v)))"

text \<open>\<^verbatim>\<open>/^(\d{2})\/(\d{2})\/(\d{4})$/\<close> on the trimmed text, and the template
  \<^verbatim>\<open>`${year}-${month}-${day}`\<close>.\<close>

definition parseDate :: "jsstring option \<Rightarrow> jsstring option" where
  "parseDate val =
     (case val of
        None \<Rightarrow> None
      | Some v \<Rightarrow>
          if v = [] then None
          else
            let trimmed = trim v
            in if trimmed = [] then None
               else (case trimmed of
                  [d1, d2, s1, m1, m2, s2, y1, y2, y3, y4] \<Rightarrow>
                    if isDigit d1 \<and> isDigit d2 \<and> s1 = 47 \<and> isDigit m1 \<and> isDigit m2 \<and>
                       s2 = 47 \<and> isDigit y1 \<and> isDigit y2 \<and> isDigit y3 \<and> isDigit y4
                    then Some ([y1, y2, y3, y4] @ [45] @ [m1, m2] @ [45] @ [d1, d2])
                    else None
                | _ \<Rightarrow> None))"

text \<open>A string or \<^verbatim>\<open>null\<close> in a condition: \<^verbatim>\<open>null\<close> and the empty string are falsy.\<close>

definition truthy :: "jsstring option \<Rightarrow> bool" where
  "truthy t \<longleftrightarrow> t \<noteq> None \<and> t \<noteq> Some []"

definition buildObservacao :: "jsstring option \<Rightarrow> jsstring option \<Rightarrow> jsstring option" where
  "buildObservacao categoria parcela =
     (let categoriaText = map_option trim categoria;
          parcelaText = map_option trim parcela
      in if truthy categoriaText \<and> truthy parcelaText
         then Some (the categoriaText @ js '' / '' @ the parcelaText)
         else if truthy categoriaText then categoriaText
         else if truthy parcelaText then parcelaText
         else None)"

subsection \<open>The normalizer\<close>

text \<open>
  A row of the sheet is an array of string cells, or \<^verbatim>\<open>undefined\<close>. Reading a cell past
  the end of the array gives \<^verbatim>\<open>undefined\<close>.
\<close>

type_synonym row = "jsstring list option"

definition cell :: "jsstring list \<Rightarrow> nat \<Rightarrow> jsstring option" where
  "cell cells i = (if i < length cells then Some (cells ! i) else None)"

record registro =
  data :: jsstring
  tipo :: jsstring
  cliente_fornecedor :: jsstring
  descricao :: jsstring
  valor :: rat
  status :: jsstring
  unidade :: "jsstring option"
  obs :: "jsstring option"
  datapag :: "jsstring option"
  aluno :: "jsstring option"
  parcel :: "jsstring option"
  desc_pontual :: "rat option"

text \<open>
  The record built from a row that passed the checks; \<open>desc_pontual\<close> is \<open>None\<close> when
  the key is not set.
\<close>

definition buildRegistro :: "jsstring list \<Rightarrow> jsstring \<Rightarrow> rat \<Rightarrow> registro" where
  "buildRegistro cells dataVencimento valorOriginal =
     (let dataBaixa = parseDate (cell cells 5);
          descPontual = parseCurrency (cell cells 16)
      in \<lparr> data = dataVencimento,
           tipo = js ''Entrada'',
           cliente_fornecedor =
             (case trimOrNull (cell cells 0) of None \<Rightarrow> js ''Sem identificacao'' | Some t \<Rightarrow> t),
           descricao = (case trimOrNull (cell cells 12) of None \<Rightarrow> [] | Some t \<Rightarrow> t),
           valor = valorOriginal,
           status = (if truthy dataBaixa then js ''Pago'' else js ''A Vencer''),
           unidade = trimOrNull (cell cells 21),
           obs = buildObservacao (cell cells 11) (cell cells 13),
           datapag = dataBaixa,
           aluno = trimOrNull (cell cells 3),
           parcel = trimOrNull (cell cells 13),
           desc_pontual = (if descPontual \<noteq> 0 then Some descPontual else None) \<rparr>)"

text \<open>The \<^verbatim>\<open>for\<close> loop over the rows, with \<open>registros\<close> the array it pushes to.\<close>

fun normalizeRows :: "row list \<Rightarrow> registro list \<Rightarrow> registro list" where
  "normalizeRows [] registros = registros"
| "normalizeRows (r # rows) registros =
     (case r of
        None \<Rightarrow> normalizeRows rows registros
      | Some cells \<Rightarrow>
          if length cells < 22 then normalizeRows rows registros
          else
            let valorOriginal = parseCurrency (cell cells 14);
                dataVencimento = parseDate (cell cells 4)
            in if \<not> truthy dataVencimento \<or> valorOriginal = 0
               then normalizeRows rows registros
               else normalizeRows rows
                      (registros @ [buildRegistro cells (the dataVencimento) valorOriginal]))"

definition buildLancamentosEntrada :: "row list \<Rightarrow> registro list" where
  "buildLancamentosEntrada values =
     (if length values \<le> 1 then [] else normalizeRows (drop 1 values) [])"

subsection \<open>Batches\<close>

text \<open>
  The loop of \<open>chunkArray\<close> adds \<open>size\<close> (here \<open>sz\<close>) to \<open>i\<close> until \<open>i\<close> reaches the
  length; with \<open>sz = 0\<close> it never ends, which is the value \<open>None\<close>.
\<close>

partial_function (option) chunkLoop ::
  "'a list \<Rightarrow> nat \<Rightarrow> nat \<Rightarrow> 'a list list \<Rightarrow> 'a list list option" where
  "chunkLoop items sz i chunks =
     (if i < length items
      then chunkLoop items sz (i + sz) (chunks @ [take sz (drop i items)])
      else Some chunks)"

declare chunkLoop.simps [code]

definition chunkArray :: "'a list \<Rightarrow> nat \<Rightarrow> 'a list list option" where
  "chunkArray items sz =
     (if length items \<le> sz then Some [items] else chunkLoop items sz 0 [])"

subsection \<open>The store\<close>

text \<open>
  Modelled from the spec: the downstream store. The Supabase client is a library
  outside the repository; the specification gives the store a delete filtered by
  equality on the category and a batch insert that takes an ordered sequence of records
  and fails as a whole. Here it is the table \<open>lancamentos\<close>. Each call resolves to a
  reply whose \<open>error\<close> is \<^verbatim>\<open>null\<close> or carries a message. Whether a call fails is not
  decided by the function: \<open>replies\<close> gives, for the \<open>k\<close>-th call sent, the \<open>error\<close> of
  its reply. A delete that succeeds removes the rows whose \<open>tipo\<close> equals the given value
  and an insert that succeeds appends the batch. An insert that fails leaves the table
  as it was, as the specification says of a batch. The specification does not say what
  a delete that fails leaves: \<open>lost\<close> marks the rows that such a delete has removed all
  the same, among the rows its filter selects (no row, for a store whose delete is
  atomic). \<open>calls\<close> records every call sent.
\<close>

datatype call = Delete jsstring | Insert "registro list"

record store =
  lancamentos :: "registro list"
  replies :: "nat \<Rightarrow> jsstring option"
  lost :: "registro \<Rightarrow> bool"
  calls :: "call list"

definition deleteEqTipo :: "jsstring \<Rightarrow> store \<Rightarrow> jsstring option \<times> store" where
  "deleteEqTipo v s =
     (let error = replies s (length (calls s))
      in (error,
          s\<lparr> lancamentos :=
                (if error = None then filter (\<lambda>r. tipo r \<noteq> v) (lancamentos s)
                 else filter (\<lambda>r. \<not> (tipo r = v \<and> lost s r)) (lancamentos s)),
              calls := calls s @ [Delete v] \<rparr>))"

definition insertRows :: "registro list \<Rightarrow> store \<Rightarrow> jsstring option \<times> store" where
  "insertRows lote s =
     (let error = replies s (length (calls s))
      in (error,
          s\<lparr> lancamentos :=
                (if error = None then lancamentos s @ lote else lancamentos s),
              calls := calls s @ [Insert lote] \<rparr>))"

subsection \<open>The handler\<close>

text \<open>What a \<^verbatim>\<open>throw\<close> carries: an \<^verbatim>\<open>Error\<close> with its message, or any other value.\<close>

datatype thrown = Error jsstring | NonError

record payload =
  success :: bool
  message :: jsstring
  total_importado :: "nat option"

datatype body = Text jsstring | Json payload

text \<open>
  A response: its status, its headers as the source writes them (their names compare
  without regard to case) and its body. A response built from a string body without a
  content type gets the content type \<^verbatim>\<open>text/plain;charset=UTF-8\<close> from the runtime.
\<close>

record response =
  resp_status :: nat
  resp_headers :: "(jsstring \<times> jsstring) list"
  resp_body :: body

definition corsHeaders :: "(jsstring \<times> jsstring) list" where
  "corsHeaders =
     [(js ''Access-Control-Allow-Origin'', js ''*''),
      (js ''Access-Control-Allow-Headers'',
       js ''authorization, x-client-info, apikey, content-type'')]"

definition jsonResponse :: "payload \<Rightarrow> nat \<Rightarrow> response" where
  "jsonResponse p st =
     \<lparr> resp_status = st,
       resp_headers = corsHeaders @ [(js ''Content-Type'', js ''application/json; charset=utf-8'')],
       resp_body = Json p \<rparr>"

text \<open>The decimal digits of an array length, as a template literal prints it.\<close>

fun showNat :: "nat \<Rightarrow> jsstring" where
  "showNat n = (if n < 10 then [48 + of_nat n] else showNat (n div 10) @ [48 + of_nat (n mod 10)])"

declare showNat.simps [simp del]

text \<open>The \<^verbatim>\<open>for\<close> loop over the batches: the first insert that fails throws.\<close>

fun insertLoop :: "registro list list \<Rightarrow> store \<Rightarrow> (thrown + unit) \<times> store" where
  "insertLoop [] s = (Inr (), s)"
| "insertLoop (lote # batches) s =
     (case insertRows lote s of
        (Some insertError, s') \<Rightarrow>
          (Inl (Error (js ''Falha ao inserir lan'' @ [231] @ js ''amentos: '' @ insertError)), s')
      | (None, s') \<Rightarrow> insertLoop batches s')"

text \<open>
  The body of the \<^verbatim>\<open>try\<close> block. \<open>sheet\<close> is what \<^verbatim>\<open>await fetchSheetData()\<close> does in
  this invocation: it throws, or it returns the rows. The outer \<open>option\<close> is \<open>None\<close>
  when the body never returns.
\<close>

definition importBody ::
  "(thrown + row list) \<Rightarrow> store \<Rightarrow> ((thrown + nat) \<times> store) option" where
  "importBody sheet s =
     (case sheet of
        Inl e \<Rightarrow> Some (Inl e, s)
      | Inr values \<Rightarrow>
          let registros = buildLancamentosEntrada values
          in (case deleteEqTipo (js ''Entrada'') s of
                (Some deleteError, s1) \<Rightarrow>
                  Some (Inl (Error (js ''Falha ao apagar lan'' @ [231] @
                                    js ''amentos de entrada: '' @ deleteError)), s1)
              | (None, s1) \<Rightarrow>
                  if length registros > 0
                  then (case chunkArray registros 500 of
                          None \<Rightarrow> None
                        | Some batches \<Rightarrow>
                            (case insertLoop batches s1 of
                               (Inl e, s2) \<Rightarrow> Some (Inl e, s2)
                             | (Inr _, s2) \<Rightarrow> Some (Inr (length registros), s2)))
                  else Some (Inr (length registros), s1)))"

definition serve ::
  "jsstring \<Rightarrow> (thrown + row list) \<Rightarrow> store \<Rightarrow> (response \<times> store) option" where
  "serve method sheet s =
     (if method = js ''OPTIONS''
      then Some (\<lparr> resp_status = 200,
                   resp_headers =
                     corsHeaders @ [(js ''content-type'', js ''text/plain;charset=UTF-8'')],
                   resp_body = Text (js ''ok'') \<rparr>, s)
      else if method \<noteq> js ''POST''
      then Some (jsonResponse
                   \<lparr> success = False, message = js ''Method not allowed'',
                     total_importado = None \<rparr> 405, s)
      else (case importBody sheet s of
              None \<Rightarrow> None
            | Some (Inr n, s') \<Rightarrow>
                Some (jsonResponse
                        \<lparr> success = True,
                          message = js ''Importa'' @ [231, 227] @ js ''o conclu'' @ [237] @
                                    js ''da com '' @ showNat n @ js '' lan'' @ [231] @
                                    js ''amentos de entrada.'',
                          total_importado = Some n \<rparr> 200, s')
            | Some (Inl error, s') \<Rightarrow>
                Some (jsonResponse
                        \<lparr> success = False,
                          message =
                            (case error of
                               Error m \<Rightarrow> m
                             | NonError \<Rightarrow> js ''Erro inesperado na importa'' @ [231, 227] @ js ''o.''),
                          total_importado = None \<rparr> 500, s')))"

subsection \<open>The rules as the specification words them\<close>

text \<open>
  The date rule: a text matches \<^verbatim>\<open>DD/MM/YYYY\<close> exactly when it has ten characters, two
  digits, a slash, two digits, a slash and four digits; \<open>isoOf\<close> rearranges such a text
  into \<^verbatim>\<open>YYYY-MM-DD\<close>.
\<close>

definition matchesDDMMYYYY :: "jsstring \<Rightarrow> bool" where
  "matchesDDMMYYYY t \<longleftrightarrow>
     length t = 10 \<and> isDigit (t ! 0) \<and> isDigit (t ! 1) \<and> t ! 2 = 47 \<and>
     isDigit (t ! 3) \<and> isDigit (t ! 4) \<and> t ! 5 = 47 \<and>
     isDigit (t ! 6) \<and> isDigit (t ! 7) \<and> isDigit (t ! 8) \<and> isDigit (t ! 9)"

definition isoOf :: "jsstring \<Rightarrow> jsstring" where
  "isoOf t = take 4 (drop 6 t) @ [45] @ take 2 (drop 3 t) @ [45] @ take 2 t"

text \<open>The shape \<^verbatim>\<open>YYYY-MM-DD\<close>, and the dates of that shape that exist in the calendar.\<close>

definition isoShape :: "jsstring \<Rightarrow> bool" where
  "isoShape d \<longleftrightarrow>
     length d = 10 \<and> isDigit (d ! 0) \<and> isDigit (d ! 1) \<and> isDigit (d ! 2) \<and> isDigit (d ! 3) \<and>
     d ! 4 = 45 \<and> isDigit (d ! 5) \<and> isDigit (d ! 6) \<and> d ! 7 = 45 \<and>
     isDigit (d ! 8) \<and> isDigit (d ! 9)"



text \<open>
  The inclusion rule of the normalizer: at least 22 cells, a due date that parses and
  an amount that parses to a value other than zero; \<open>registroOf\<close> is the record of
  such a row.
\<close>

definition included :: "row \<Rightarrow> bool" where
  "included r \<longleftrightarrow>
     (case r of
        None \<Rightarrow> False
      | Some cells \<Rightarrow>
          22 \<le> length cells \<and> parseDate (cell cells 4) \<noteq> None \<and>
          parseCurrency (cell cells 14) \<noteq> 0)"

text \<open>
  The currency rule in one pass over the text: a \<^verbatim>\<open>.\<close> is a thousands separator and
  is dropped; the first comma is the decimal comma and becomes the decimal point; of the
  other characters only digits and \<^verbatim>\<open>-\<close> are kept. The amount is the decimal number
  read from the result, and zero when none can be read. \<open>includedRule\<close> is the
  inclusion rule stated with this amount and with the date pattern on the trimmed cell.
\<close>

fun specNormal :: "bool \<Rightarrow> jsstring \<Rightarrow> jsstring" where
  "specNormal seen [] = []"
| "specNormal seen (c # cs) =
     (if c = 46 then specNormal seen cs
      else if c = 44 then (if seen then specNormal seen cs else 46 # specNormal True cs)
      else if isDigit c \<or> c = 45 then c # specNormal seen cs
      else specNormal seen cs)"

definition specAmount :: "jsstring option \<Rightarrow> rat" where
  "specAmount c =
     (case c of
        None \<Rightarrow> 0
      | Some v \<Rightarrow> finiteOrZero (parseFloat (specNormal False v)))"

definition includedRule :: "row \<Rightarrow> bool" where
  "includedRule r \<longleftrightarrow>
     (case r of
        None \<Rightarrow> False
      | Some cells \<Rightarrow>
          22 \<le> length cells \<and> matchesDDMMYYYY (trim (cells ! 4)) \<and>
          specAmount (Some (cells ! 14)) \<noteq> 0)"

definition registroOf :: "row \<Rightarrow> registro" where
  "registroOf r =
     buildRegistro (the r) (the (parseDate (cell (the r) 4))) (parseCurrency (cell (the r) 14))"



text \<open>A cell that is not empty after trimming.\<close>

definition nonEmpty :: "jsstring option \<Rightarrow> bool" where
  "nonEmpty c \<longleftrightarrow> (case c of None \<Rightarrow> False | Some v \<Rightarrow> trim v \<noteq> [])"

subsection \<open>Sample sheets\<close>

text \<open>
  A data row with a due date, an amount of 150,00 and no payment date; the same row
  with a payment date, with the amount \<^verbatim>\<open>0\<close>, cut to ten cells, and with the due date
  \<^verbatim>\<open>32/13/2024\<close>. \<open>sampleValues\<close> is the scenario of a header and three data rows of
  which only the first is kept.
\<close>

definition sampleRow :: "jsstring list" where
  "sampleRow =
     [js ''Maria Silva'', [], [], js ''Ana'', js ''10/01/2024'', [], [], [], [], [], [],
      js ''Mensalidade'', js ''Curso'', js ''2/12'', js ''150,00'', [], [], [], [], [], [],
      js ''Centro'']"

definition paidRow :: "jsstring list" where
  "paidRow = sampleRow[5 := js ''12/01/2024'']"


definition headerRow :: "jsstring list" where
  "headerRow = [js ''Cliente'']"

definition sampleValues :: "row list" where
  "sampleValues =
     [Some headerRow, Some sampleRow, Some (sampleRow[14 := js ''0'']), Some (take 10 sampleRow)]"

text \<open>
  A table that holds one outflow and one inflow record before the run, with the replies
  of the store left open, and a sheet of a header and 1200 copies of the valid row.
\<close>

definition oldSaida :: registro where
  "oldSaida =
     \<lparr> data = js ''2023-12-05'', tipo = js ''Saida'', cliente_fornecedor = js ''Papelaria'',
       descricao = js ''Material'', valor = 80, status = js ''Pago'', unidade = None,
       obs = None, datapag = Some (js ''2023-12-05''), aluno = None, parcel = None,
       desc_pontual = None \<rparr>"

definition oldEntrada :: registro where
  "oldEntrada =
     \<lparr> data = js ''2023-12-10'', tipo = js ''Entrada'', cliente_fornecedor = js ''Maria Silva'',
       descricao = js ''Curso'', valor = 150, status = js ''A Vencer'', unidade = None,
       obs = None, datapag = None, aluno = None, parcel = None, desc_pontual = None \<rparr>"

definition sampleStore :: "(nat \<Rightarrow> jsstring option) \<Rightarrow> store" where
  "sampleStore rs =
     \<lparr> lancamentos = [oldSaida, oldEntrada], replies = rs, lost = (\<lambda>r. False), calls = [] \<rparr>"

text \<open>
  A sheet whose amounts carry a currency sign and a thousands separator, no digit, and
  the value zero.
\<close>

definition currencyValues :: "row list" where
  "currencyValues =
     [Some headerRow, Some (sampleRow[14 := js ''R$ 1.500,50'']),
      Some (sampleRow[14 := js ''n/a'']), Some (sampleRow[14 := js ''R$ 0,00''])]"

definition values1200 :: "row list" where
  "values1200 = Some headerRow # replicate 1200 (Some sampleRow)"

section \<open>Properties\<close>

subsection \<open>Auxiliary facts\<close>

lemma js_simps: "js [] = []" "js (c # cs) = of_char c # js cs"
  by (simp_all add: js_def)

lemma overflowBound_eq: "overflowBound = 2 ^ 1024"
  by (simp add: overflowBound_def)

lemma roundBinary64_tenth: "roundBinary64 (1 / 10) = Finite (3602879701896397 / 36028797018963968)"
  by code_simp

lemma roundBinary64_ties_to_even:
  "roundBinary64 (2 ^ 53 + 1) = Finite (2 ^ 53)"
  "roundBinary64 (2 ^ 53 + 3) = Finite (2 ^ 53 + 4)"
  by code_simp+

lemma parseDate_spec:
  "parseDate val =
     (case val of None \<Rightarrow> None
      | Some v \<Rightarrow> if matchesDDMMYYYY (trim v) then Some (isoOf (trim v)) else None)"
proof (cases val)
  case None
  then show ?thesis by (simp add: parseDate_def)
next
  case (Some v)
  have e: "trim [] = []" by (simp add: trim_def)
  have m: "\<not> matchesDDMMYYYY []" by (simp add: matchesDDMMYYYY_def)
  show ?thesis
    unfolding Some parseDate_def Let_def
    by (auto simp: e m matchesDDMMYYYY_def isoOf_def split: list.splits)
qed

lemma parseDate_Some_iso: "parseDate val = Some d \<Longrightarrow> isoShape d"
  by (auto simp: parseDate_spec matchesDDMMYYYY_def isoOf_def isoShape_def nth_append
      split: option.splits if_splits)

lemma parseDate_truthy: "truthy (parseDate val) \<longleftrightarrow> parseDate val \<noteq> None"
  using parseDate_Some_iso [of val "[]"] by (auto simp: truthy_def isoShape_def)

lemma included_None: "\<not> included None"
  by (simp add: included_def)

lemma included_Some:
  "included (Some cells) \<longleftrightarrow>
     \<not> length cells < 22 \<and> truthy (parseDate (cell cells 4)) \<and> parseCurrency (cell cells 14) \<noteq> 0"
  by (auto simp: included_def parseDate_truthy)

lemma normalizeRows_acc:
  "normalizeRows rows acc = acc @ map registroOf (filter included rows)"
proof (induction rows arbitrary: acc)
  case Nil
  then show ?case by simp
next
  case (Cons r rows)
  show ?case
  proof (cases r)
    case None
    then show ?thesis by (simp add: Cons included_None)
  next
    case (Some cells)
    show ?thesis
    proof (cases "included (Some cells)")
      case True
      then show ?thesis
        unfolding Some using True [unfolded included_Some]
        by (simp add: Cons registroOf_def)
    next
      case False
      then show ?thesis
        unfolding Some using False [unfolded included_Some]
        by (auto simp: Cons)
    qed
  qed
qed

lemma build_map_filter:
  "buildLancamentosEntrada values = map registroOf (filter included (drop 1 values))"
proof (cases "length values \<le> 1")
  case True
  then show ?thesis by (simp add: buildLancamentosEntrada_def)
next
  case False
  then show ?thesis by (simp add: buildLancamentosEntrada_def normalizeRows_acc)
qed


lemma buildObservacao_cases:
  "buildObservacao categoria parcela =
     (if nonEmpty categoria \<and> nonEmpty parcela
      then Some (trim (the categoria) @ js '' / '' @ trim (the parcela))
      else if nonEmpty categoria then Some (trim (the categoria))
      else if nonEmpty parcela then Some (trim (the parcela))
      else None)"
  by (cases categoria; cases parcela)
     (auto simp: buildObservacao_def truthy_def nonEmpty_def)

lemma set_build:
  "r \<in> set (buildLancamentosEntrada values) \<Longrightarrow>
   \<exists>cells. Some cells \<in> set (drop 1 values) \<and> included (Some cells) \<and> r = registroOf (Some cells)"
proof -
  assume "r \<in> set (buildLancamentosEntrada values)"
  then obtain x where x: "x \<in> set (drop 1 values)" "included x" "r = registroOf x"
    by (auto simp: build_map_filter)
  from x(2) obtain cells where "x = Some cells"
    by (cases x) (auto simp: included_None)
  with x show ?thesis by blast
qed

lemma included_sampleRow: "included (Some sampleRow)"
  by code_simp

lemma not_included_zero: "\<not> included (Some (sampleRow[14 := js ''0'']))"
  by code_simp

lemma not_included_short: "\<not> included (Some (take 10 sampleRow))"
  by code_simp

lemma build_sampleValues: "buildLancamentosEntrada sampleValues = [registroOf (Some sampleRow)]"
  by (simp add: build_map_filter sampleValues_def included_sampleRow not_included_zero
      not_included_short)

lemma included_paidRow: "included (Some paidRow)"
  by code_simp


lemma registroOf_sampleRow:
  "registroOf (Some sampleRow) =
     \<lparr> data = js ''2024-01-10'', tipo = js ''Entrada'', cliente_fornecedor = js ''Maria Silva'',
       descricao = js ''Curso'', valor = 150, status = js ''A Vencer'',
       unidade = Some (js ''Centro''), obs = Some (js ''Mensalidade / 2/12''), datapag = None,
       aluno = Some (js ''Ana''), parcel = Some (js ''2/12''), desc_pontual = None \<rparr>"
  by code_simp

lemma registroOf_paidRow:
  "registroOf (Some paidRow) =
     \<lparr> data = js ''2024-01-10'', tipo = js ''Entrada'', cliente_fornecedor = js ''Maria Silva'',
       descricao = js ''Curso'', valor = 150, status = js ''Pago'',
       unidade = Some (js ''Centro''), obs = Some (js ''Mensalidade / 2/12''),
       datapag = Some (js ''2024-01-12''),
       aluno = Some (js ''Ana''), parcel = Some (js ''2/12''), desc_pontual = None \<rparr>"
  by code_simp


lemma status_registroOf:
  "status (registroOf (Some cells)) =
     (if parseDate (cell cells 5) \<noteq> None then js ''Pago'' else js ''A Vencer'')"
  "datapag (registroOf (Some cells)) = parseDate (cell cells 5)"
  by (simp_all add: registroOf_def buildRegistro_def Let_def parseDate_truthy)

lemma Pago_neq: "js ''Pago'' \<noteq> js ''A Vencer''"
  by (simp add: js_simps)

subsection \<open>The date rule\<close>

text \<open>
  C7, as the claim states it: the date rule accepts a cell if and only if the cell
  matches \<^verbatim>\<open>DD/MM/YYYY\<close> exactly. This fails: \<open>parseDate\<close> trims the cell first, so the
  cell \<^verbatim>\<open>" 01/02/2024"\<close>, which starts with a space and does not match, is accepted.
\<close>

theorem parseDate_untrimmed_counterexample:
  "\<not> matchesDDMMYYYY (js '' 01/02/2024'') \<and>
   parseDate (Some (js '' 01/02/2024'')) = Some (js ''2024-02-01'')"
  by (simp add: parseDate_def trim_def isWhiteSpace_def matchesDDMMYYYY_def isDigit_def js_simps)

text \<open>
  C7, amended: the date rule accepts a cell if and only if the cell, with the white
  space at both ends stripped, matches \<^verbatim>\<open>DD/MM/YYYY\<close> exactly; an absent cell and any
  other shape yield absent, and an accepted text is stored as \<^verbatim>\<open>YYYY-MM-DD\<close>.
\<close>

theorem parseDate_trimmed_match:
  "parseDate val =
     (case val of None \<Rightarrow> None
      | Some v \<Rightarrow> if matchesDDMMYYYY (trim v) then Some (isoOf (trim v)) else None)"
  by (rule parseDate_spec)

text \<open>The rule at the cell \<^verbatim>\<open>"15/03/2024 "\<close>.\<close>

theorem parseDate_trimmed_match_witness:
  "parseDate (Some (js ''15/03/2024 '')) = Some (js ''2024-03-15'')"
  by (simp add: parseDate_trimmed_match trim_def isWhiteSpace_def matchesDDMMYYYY_def
      isoOf_def isDigit_def js_simps)

subsection \<open>The note\<close>

text \<open>
  C8: with both the category cell and the installment cell not empty after trimming,
  the note is the two trimmed texts joined with \<^verbatim>\<open>" / "\<close>; with exactly one of them not
  empty, the note is that one; with neither, it is \<^verbatim>\<open>null\<close>. The note is never the
  empty string, and the note of every record the normalizer emits is built this way
  from cells 11 and 13 of a data row.
\<close>

theorem buildObservacao_join_with_fallback:
  "(nonEmpty categoria \<and> nonEmpty parcela \<longrightarrow>
      buildObservacao categoria parcela =
        Some (trim (the categoria) @ js '' / '' @ trim (the parcela))) \<and>
   (nonEmpty categoria \<and> \<not> nonEmpty parcela \<longrightarrow>
      buildObservacao categoria parcela = Some (trim (the categoria))) \<and>
   (\<not> nonEmpty categoria \<and> nonEmpty parcela \<longrightarrow>
      buildObservacao categoria parcela = Some (trim (the parcela))) \<and>
   (\<not> nonEmpty categoria \<and> \<not> nonEmpty parcela \<longrightarrow>
      buildObservacao categoria parcela = None) \<and>
   buildObservacao categoria parcela \<noteq> Some [] \<and>
   (\<forall>r \<in> set (buildLancamentosEntrada values).
      obs r \<noteq> Some [] \<and>
      (\<exists>cells. Some cells \<in> set (drop 1 values) \<and>
         obs r = buildObservacao (cell cells 11) (cell cells 13)))"
proof -
  have ne: "buildObservacao c p \<noteq> Some []" for c p
    by (cases c; cases p) (auto simp: buildObservacao_cases nonEmpty_def js_def)
  have rec: "obs (registroOf (Some cells)) = buildObservacao (cell cells 11) (cell cells 13)"
    for cells
    by (simp add: registroOf_def buildRegistro_def Let_def)
  have "\<forall>r \<in> set (buildLancamentosEntrada values).
      obs r \<noteq> Some [] \<and>
      (\<exists>cells. Some cells \<in> set (drop 1 values) \<and>
         obs r = buildObservacao (cell cells 11) (cell cells 13))"
  proof
    fix r assume "r \<in> set (buildLancamentosEntrada values)"
    from set_build [OF this] obtain cells
      where c: "Some cells \<in> set (drop 1 values)" "r = registroOf (Some cells)" by blast
    with rec [of cells] ne show "obs r \<noteq> Some [] \<and>
      (\<exists>cells. Some cells \<in> set (drop 1 values) \<and>
         obs r = buildObservacao (cell cells 11) (cell cells 13))"
      by metis
  qed
  then show ?thesis
    using ne [of categoria parcela] by (simp add: buildObservacao_cases)
qed

text \<open>The four cases of the rule at concrete cells, and the record of the sample sheet.\<close>

theorem buildObservacao_join_with_fallback_witness:
  "buildObservacao (Some (js ''Mensalidade '')) (Some (js ''2/12'')) =
     Some (js ''Mensalidade / 2/12'') \<and>
   buildObservacao (Some (js ''Mensalidade'')) None = Some (js ''Mensalidade'') \<and>
   buildObservacao (Some (js '' '')) (Some (js ''2/12'')) = Some (js ''2/12'') \<and>
   buildObservacao (Some []) None = None \<and>
   buildLancamentosEntrada sampleValues \<noteq> [] \<and>
   obs (hd (buildLancamentosEntrada sampleValues)) \<noteq> Some []"
proof -
  have "buildObservacao (Some (js ''Mensalidade '')) (Some (js ''2/12'')) =
          Some (js ''Mensalidade / 2/12'')"
    using buildObservacao_join_with_fallback
            [of "Some (js ''Mensalidade '')" "Some (js ''2/12'')" sampleValues]
    by (simp add: nonEmpty_def trim_def isWhiteSpace_def js_simps)
  moreover have "buildObservacao (Some (js ''Mensalidade'')) None = Some (js ''Mensalidade'')"
    using buildObservacao_join_with_fallback [of "Some (js ''Mensalidade'')" None sampleValues]
    by (simp add: nonEmpty_def trim_def isWhiteSpace_def js_simps)
  moreover have "buildObservacao (Some (js '' '')) (Some (js ''2/12'')) = Some (js ''2/12'')"
    using buildObservacao_join_with_fallback [of "Some (js '' '')" "Some (js ''2/12'')" sampleValues]
    by (simp add: nonEmpty_def trim_def isWhiteSpace_def js_simps)
  moreover have "buildObservacao (Some []) None = None"
    using buildObservacao_join_with_fallback [of "Some []" None sampleValues]
    by (simp add: nonEmpty_def trim_def isWhiteSpace_def js_simps)
  moreover have "buildLancamentosEntrada sampleValues \<noteq> []"
    by (simp add: build_sampleValues)
  moreover have "obs (hd (buildLancamentosEntrada sampleValues)) \<noteq> Some []"
  proof -
    have "hd (buildLancamentosEntrada sampleValues) \<in> set (buildLancamentosEntrada sampleValues)"
      by (simp add: build_sampleValues)
    with buildObservacao_join_with_fallback [of None None sampleValues] show ?thesis
      by blast
  qed
  ultimately show ?thesis by blast
qed

subsection \<open>The normalizer\<close>

text \<open>
  C6: every record the normalizer emits is the record of an included data row, and its
  status is \<^verbatim>\<open>"Pago"\<close> (paid) if and only if the payment-date cell of that row parses
  under the date rule, and \<^verbatim>\<open>"A Vencer"\<close> (due) if and only if it does not; the
  record's \<open>datapag\<close> (payment date) is the result of that parse, the ISO text or
  \<^verbatim>\<open>null\<close>.
\<close>

theorem status_paid_iff_payment_date:
  "r \<in> set (buildLancamentosEntrada values) \<Longrightarrow>
   \<exists>cells. Some cells \<in> set (drop 1 values) \<and> included (Some cells) \<and>
     r = registroOf (Some cells) \<and>
     (status r = js ''Pago'' \<longleftrightarrow> parseDate (cell cells 5) \<noteq> None) \<and>
     (status r = js ''A Vencer'' \<longleftrightarrow> parseDate (cell cells 5) = None) \<and>
     datapag r = parseDate (cell cells 5)"
proof -
  assume "r \<in> set (buildLancamentosEntrada values)"
  from set_build [OF this] obtain cells where
    c: "Some cells \<in> set (drop 1 values)" "included (Some cells)" "r = registroOf (Some cells)"
    by blast
  have "(status r = js ''Pago'' \<longleftrightarrow> parseDate (cell cells 5) \<noteq> None) \<and>
     (status r = js ''A Vencer'' \<longleftrightarrow> parseDate (cell cells 5) = None) \<and>
     datapag r = parseDate (cell cells 5)"
    unfolding c(3) status_registroOf using Pago_neq by auto
  with c show ?thesis by (intro exI [of _ cells]) simp
qed

text \<open>A sheet whose data row has the payment date \<^verbatim>\<open>12/01/2024\<close>.\<close>

theorem status_paid_iff_payment_date_witness:
  "registroOf (Some paidRow) \<in> set (buildLancamentosEntrada [Some headerRow, Some paidRow]) \<and>
   status (registroOf (Some paidRow)) = js ''Pago'' \<and>
   datapag (registroOf (Some paidRow)) = Some (js ''2024-01-12'') \<and>
   (\<exists>cells. Some cells \<in> set (drop 1 [Some headerRow, Some paidRow]) \<and>
      included (Some cells) \<and>
      registroOf (Some paidRow) = registroOf (Some cells) \<and>
      (status (registroOf (Some paidRow)) = js ''Pago'' \<longleftrightarrow> parseDate (cell cells 5) \<noteq> None) \<and>
      (status (registroOf (Some paidRow)) = js ''A Vencer'' \<longleftrightarrow> parseDate (cell cells 5) = None) \<and>
      datapag (registroOf (Some paidRow)) = parseDate (cell cells 5))"
proof -
  have m: "registroOf (Some paidRow) \<in> set (buildLancamentosEntrada [Some headerRow, Some paidRow])"
    by (simp add: build_map_filter included_paidRow)
  have "status (registroOf (Some paidRow)) = js ''Pago''"
    and "datapag (registroOf (Some paidRow)) = Some (js ''2024-01-12'')"
    by (simp_all add: registroOf_paidRow)
  with status_paid_iff_payment_date [OF m] m show ?thesis
    by (intro conjI)
qed




subsection \<open>The currency rule\<close>

text \<open>
  The text \<open>parseCurrency\<close> passes to \<open>parseFloat\<close> holds digits, \<^verbatim>\<open>.\<close> and \<^verbatim>\<open>-\<close> only,
  which is the domain \<open>parseFloat\<close> is modelled on.
\<close>

lemma normalized_chars: "c \<in> set (normalized v) \<Longrightarrow> isDigit c \<or> c = 46 \<or> c = 45"
  by (simp add: normalized_def keepNumeric_def)

lemma replaceFirstComma_Cons:
  "c \<noteq> 44 \<Longrightarrow> replaceFirstComma (c # cs) = c # replaceFirstComma cs"
  by (cases "dropWhile (\<lambda>c. c \<noteq> 44) cs")
     (simp_all add: replaceFirstComma_def del: dropWhile_eq_Nil_conv)















subsection \<open>The inclusion rule\<close>

lemma specNormal_seen: "specNormal True v = keepNumeric (removeDots v)"
  by (induction v) (auto simp: keepNumeric_def removeDots_def isDigit_def)

lemma removeDots_Cons: "removeDots (c # cs) = (if c = 46 then removeDots cs else c # removeDots cs)"
  by (simp add: removeDots_def)

lemma replaceFirstComma_comma: "replaceFirstComma (44 # cs) = 46 # cs"
  by (simp add: replaceFirstComma_def)

lemma specNormal_normalized: "specNormal False v = normalized v"
proof (induction v)
  case Nil
  then show ?case
    by (simp add: normalized_def keepNumeric_def removeDots_def replaceFirstComma_def)
next
  case (Cons c cs)
  consider "c = 46" | "c = 44" | "c \<noteq> 46" "c \<noteq> 44" by blast
  then show ?case
  proof cases
    case 1
    with Cons show ?thesis by (simp add: normalized_def removeDots_Cons)
  next
    case 2
    have "keepNumeric (46 # removeDots cs) = 46 # keepNumeric (removeDots cs)"
      by (simp add: keepNumeric_def)
    with 2 show ?thesis
      by (simp add: normalized_def removeDots_Cons replaceFirstComma_comma specNormal_seen)
  next
    case 3
    have "keepNumeric (c # xs) = (if isDigit c \<or> c = 45 then c # keepNumeric xs else keepNumeric xs)"
      for xs using 3 by (simp add: keepNumeric_def)
    with 3 Cons show ?thesis
      by (simp add: normalized_def removeDots_Cons replaceFirstComma_Cons)
  qed
qed

lemma parseCurrency_specAmount: "parseCurrency c = specAmount c"
proof (cases c)
  case None
  then show ?thesis by (simp add: parseCurrency_def specAmount_def)
next
  case (Some v)
  have "finiteOrZero (parseFloat []) = 0"
    by (simp add: parseFloat_def finiteOrZero_def)
  then show ?thesis
    by (cases "v = []") (simp_all add: Some parseCurrency_def specAmount_def specNormal_normalized)
qed

lemma included_rule: "included r \<longleftrightarrow> includedRule r"
proof (cases r)
  case None
  then show ?thesis by (simp add: included_def includedRule_def)
next
  case (Some cells)
  show ?thesis
  proof (cases "22 \<le> length cells")
    case True
    then have "cell cells 4 = Some (cells ! 4)" and "cell cells 14 = Some (cells ! 14)"
      by (simp_all add: cell_def)
    with True show ?thesis
      by (simp add: Some included_def includedRule_def parseDate_spec parseCurrency_specAmount)
  next
    case False
    then show ?thesis by (simp add: Some included_def includedRule_def)
  qed
qed

lemma includedRule_currencyValues:
  "includedRule (Some (sampleRow[14 := js ''R$ 1.500,50'']))"
  "\<not> includedRule (Some (sampleRow[14 := js ''n/a'']))"
  "\<not> includedRule (Some (sampleRow[14 := js ''R$ 0,00'']))"
  by code_simp+

lemma includedRule_sampleValues:
  "includedRule (Some sampleRow)"
  "\<not> includedRule (Some (sampleRow[14 := js ''0'']))"
  "\<not> includedRule (Some (take 10 sampleRow))"
  by code_simp+

lemma valor_currencyRow:
  "valor (registroOf (Some (sampleRow[14 := js ''R$ 1.500,50'']))) = 3001 / 2"
  by code_simp

text \<open>
  C2: for the rows after the header row, the normalizer emits a record for a row if and
  only if the row has at least 22 cells, its due-date cell, trimmed, matches the date
  pattern, and its amount cell has an amount other than zero under the currency rule
  (thousands separators dropped, the decimal comma read as the decimal point, every
  other character that is not a digit or a sign dropped, an unreadable text counted as
  zero). The output is the list of the records of the included rows, one for each, in
  the order of the rows; an excluded row adds nothing, and the function returns a list
  of records on every input, so no row makes it report an error. The rule is stated
  without the parsers of the code, and agrees with the rule stated with them.
\<close>

theorem normalizer_inclusion_rule:
  "buildLancamentosEntrada values = map registroOf (filter includedRule (drop 1 values)) \<and>
   filter includedRule (drop 1 values) = filter included (drop 1 values)"
proof -
  have "includedRule = included"
    by (rule ext) (simp add: included_rule)
  then show ?thesis by (simp add: build_map_filter)
qed

text \<open>
  The sheet with a header and three data rows (a valid row with the amount 150,00 and
  no payment date, a row with the amount \<^verbatim>\<open>0\<close> and a row of ten cells) gives exactly
  one record, that of the first data row. The sheet with the amounts \<^verbatim>\<open>R$ 1.500,50\<close>,
  \<^verbatim>\<open>n/a\<close> and \<^verbatim>\<open>R$ 0,00\<close> gives exactly one record, with the amount 1500.5.
\<close>

theorem normalizer_inclusion_rule_witness:
  "buildLancamentosEntrada sampleValues = [registroOf (Some sampleRow)] \<and>
   status (registroOf (Some sampleRow)) = js ''A Vencer'' \<and>
   valor (registroOf (Some sampleRow)) = 150 \<and>
   buildLancamentosEntrada currencyValues =
     [registroOf (Some (sampleRow[14 := js ''R$ 1.500,50'']))] \<and>
   map valor (buildLancamentosEntrada currencyValues) = [3001 / 2]"
proof -
  have a: "buildLancamentosEntrada sampleValues = [registroOf (Some sampleRow)]"
    using normalizer_inclusion_rule [of sampleValues]
    by (simp add: sampleValues_def includedRule_sampleValues)
  have b: "buildLancamentosEntrada currencyValues =
     [registroOf (Some (sampleRow[14 := js ''R$ 1.500,50'']))]"
    using normalizer_inclusion_rule [of currencyValues]
    by (simp add: currencyValues_def includedRule_currencyValues)
  from a b show ?thesis
    by (simp add: registroOf_sampleRow valor_currencyRow)
qed

subsection \<open>Facts about batches, the store and the handler\<close>

lemma chunkLoop_total:
  assumes "0 < sz"
  shows "\<exists>cs. chunkLoop items sz i chunks = Some (chunks @ cs) \<and> concat cs = drop i items"
proof (induction "length items - i" arbitrary: i chunks rule: less_induct)
  case less
  show ?case
  proof (cases "i < length items")
    case True
    with assms have "length items - (i + sz) < length items - i" by arith
    from less [OF this, of "chunks @ [take sz (drop i items)]"]
    obtain cs where cs:
      "chunkLoop items sz (i + sz) (chunks @ [take sz (drop i items)]) =
         Some ((chunks @ [take sz (drop i items)]) @ cs)"
      "concat cs = drop (i + sz) items"
      by blast
    have "chunkLoop items sz i chunks = Some (chunks @ take sz (drop i items) # cs)"
      by (subst chunkLoop.simps) (simp add: True cs(1))
    moreover have "concat (take sz (drop i items) # cs) = drop i items"
      by (simp add: cs(2) add.commute [of i sz] flip: drop_drop)
    ultimately show ?thesis by blast
  next
    case False
    then have "chunkLoop items sz i chunks = Some (chunks @ [])"
      by (subst chunkLoop.simps) simp
    with False show ?thesis by auto
  qed
qed

lemma chunkArray_total:
  "0 < sz \<Longrightarrow> \<exists>batches. chunkArray items sz = Some batches \<and> concat batches = items"
  using chunkLoop_total [of sz items 0 "[]"] by (auto simp: chunkArray_def)

lemma chunkArray_1200:
  assumes "length items = 1200"
  shows "chunkArray items 500 =
           Some [take 500 items, take 500 (drop 500 items), drop 1000 items]"
proof -
  have "chunkLoop items 500 1500 [take 500 items, take 500 (drop 500 items), drop 1000 items] =
          Some [take 500 items, take 500 (drop 500 items), drop 1000 items]"
    by (subst chunkLoop.simps) (simp add: assms)
  then have "chunkLoop items 500 1000 [take 500 items, take 500 (drop 500 items)] =
          Some [take 500 items, take 500 (drop 500 items), drop 1000 items]"
    by (subst chunkLoop.simps) (simp add: assms)
  then have "chunkLoop items 500 500 [take 500 items] =
          Some [take 500 items, take 500 (drop 500 items), drop 1000 items]"
    by (subst chunkLoop.simps) (simp add: assms)
  then have "chunkLoop items 500 0 [] =
          Some [take 500 items, take 500 (drop 500 items), drop 1000 items]"
    by (subst chunkLoop.simps) (simp add: assms)
  then show ?thesis by (simp add: chunkArray_def assms)
qed

lemma replies_insertRows [simp]: "replies (snd (insertRows lote s)) = replies s"
  by (simp add: insertRows_def Let_def)

lemma calls_insertRows [simp]: "calls (snd (insertRows lote s)) = calls s @ [Insert lote]"
  by (simp add: insertRows_def Let_def)

lemma insertRows_ok:
  "replies s (length (calls s)) = None \<Longrightarrow>
   insertRows lote s =
     (None, s\<lparr> lancamentos := lancamentos s @ lote, calls := calls s @ [Insert lote] \<rparr>)"
  by (simp add: insertRows_def)

lemma insertRows_fail:
  "replies s (length (calls s)) = Some msg \<Longrightarrow>
   insertRows lote s = (Some msg, s\<lparr> calls := calls s @ [Insert lote] \<rparr>)"
  by (simp add: insertRows_def)

lemma insertLoop_ok:
  "(\<And>j. j < length batches \<Longrightarrow> replies s (length (calls s) + j) = None) \<Longrightarrow>
   insertLoop batches s =
     (Inr (), s\<lparr> lancamentos := lancamentos s @ concat batches,
                 calls := calls s @ map Insert batches \<rparr>)"
proof (induction batches arbitrary: s)
  case Nil
  then show ?case by simp
next
  case (Cons lote batches)
  from Cons.prems [of 0] have r0: "replies s (length (calls s)) = None" by simp
  let ?s1 = "s\<lparr> lancamentos := lancamentos s @ lote, calls := calls s @ [Insert lote] \<rparr>"
  have "insertLoop batches ?s1 =
     (Inr (), ?s1\<lparr> lancamentos := lancamentos ?s1 @ concat batches,
                 calls := calls ?s1 @ map Insert batches \<rparr>)"
  proof (rule Cons.IH)
    fix j assume "j < length batches"
    with Cons.prems [of "Suc j"] show "replies ?s1 (length (calls ?s1) + j) = None" by simp
  qed
  then show ?case by (simp add: insertRows_ok [OF r0])
qed

lemma insertLoop_fail:
  "j < length batches \<Longrightarrow>
   (\<And>i. i < j \<Longrightarrow> replies s (length (calls s) + i) = None) \<Longrightarrow>
   replies s (length (calls s) + j) = Some msg \<Longrightarrow>
   insertLoop batches s =
     (Inl (Error (js ''Falha ao inserir lan'' @ [231] @ js ''amentos: '' @ msg)),
      s\<lparr> lancamentos := lancamentos s @ concat (take j batches),
         calls := calls s @ map Insert (take (Suc j) batches) \<rparr>)"
proof (induction batches arbitrary: s j)
  case Nil
  then show ?case by simp
next
  case (Cons lote batches)
  show ?case
  proof (cases j)
    case 0
    with Cons.prems(3) have "replies s (length (calls s)) = Some msg" by simp
    then show ?thesis by (simp add: 0 insertRows_fail)
  next
    case (Suc k)
    from Cons.prems(2) [of 0] Suc have r0: "replies s (length (calls s)) = None" by simp
    let ?s1 = "s\<lparr> lancamentos := lancamentos s @ lote, calls := calls s @ [Insert lote] \<rparr>"
    have "insertLoop batches ?s1 =
     (Inl (Error (js ''Falha ao inserir lan'' @ [231] @ js ''amentos: '' @ msg)),
      ?s1\<lparr> lancamentos := lancamentos ?s1 @ concat (take k batches),
         calls := calls ?s1 @ map Insert (take (Suc k) batches) \<rparr>)"
    proof (rule Cons.IH)
      show "k < length batches" using Cons.prems(1) Suc by simp
      show "replies ?s1 (length (calls ?s1) + i) = None" if "i < k" for i
        using Cons.prems(2) [of "Suc i"] that Suc by simp
      show "replies ?s1 (length (calls ?s1) + k) = Some msg"
        using Cons.prems(3) Suc by simp
    qed
    then show ?thesis by (simp add: insertRows_ok [OF r0] Suc)
  qed
qed

lemma insertLoop_frame:
  "(\<And>r. r \<in> set (concat batches) \<Longrightarrow> tipo r = v) \<Longrightarrow>
   filter (\<lambda>r. tipo r \<noteq> v) (lancamentos (snd (insertLoop batches s))) =
     filter (\<lambda>r. tipo r \<noteq> v) (lancamentos s) \<and>
   replies (snd (insertLoop batches s)) = replies s \<and>
   (\<exists>n. calls (snd (insertLoop batches s)) = calls s @ map Insert (take n batches))"
proof (induction batches arbitrary: s)
  case Nil
  then show ?case by simp
next
  case (Cons lote batches)
  show ?case
  proof (cases "replies s (length (calls s))")
    case None
    let ?s1 = "s\<lparr> lancamentos := lancamentos s @ lote, calls := calls s @ [Insert lote] \<rparr>"
    have ih: "filter (\<lambda>r. tipo r \<noteq> v) (lancamentos (snd (insertLoop batches ?s1))) =
        filter (\<lambda>r. tipo r \<noteq> v) (lancamentos ?s1) \<and>
      replies (snd (insertLoop batches ?s1)) = replies ?s1 \<and>
      (\<exists>n. calls (snd (insertLoop batches ?s1)) = calls ?s1 @ map Insert (take n batches))"
      by (rule Cons.IH) (simp add: Cons.prems)
    then obtain n where n: "calls (snd (insertLoop batches ?s1)) = calls ?s1 @ map Insert (take n batches)"
      by blast
    have l: "filter (\<lambda>r. tipo r \<noteq> v) lote = []"
      using Cons.prems by (auto simp: filter_empty_conv)
    have "calls (snd (insertLoop (lote # batches) s)) =
            calls s @ map Insert (take (Suc n) (lote # batches))"
      by (simp add: insertRows_ok [OF None] n)
    then show ?thesis
      using ih l by (auto simp: insertRows_ok [OF None] simp del: take_Suc_Cons)
  next
    case (Some msg)
    have "calls (snd (insertLoop (lote # batches) s)) =
            calls s @ map Insert (take (Suc 0) (lote # batches))"
      by (simp add: insertRows_fail [OF Some])
    then show ?thesis
      by (auto simp: insertRows_fail [OF Some] simp del: take_Suc_Cons)
  qed
qed

lemma tipo_build: "r \<in> set (buildLancamentosEntrada values) \<Longrightarrow> tipo r = js ''Entrada''"
  using set_build [of r "values"] by (auto simp: registroOf_def buildRegistro_def Let_def)

lemma POST_neq_OPTIONS: "js ''POST'' \<noteq> js ''OPTIONS''"
  by (simp add: js_simps)

lemma deleteEqTipo_ok:
  "replies s (length (calls s)) = None \<Longrightarrow>
   deleteEqTipo v s =
     (None, s\<lparr> lancamentos := filter (\<lambda>r. tipo r \<noteq> v) (lancamentos s),
                calls := calls s @ [Delete v] \<rparr>)"
  by (simp add: deleteEqTipo_def)

lemma deleteEqTipo_fail:
  "replies s (length (calls s)) = Some msg \<Longrightarrow>
   deleteEqTipo v s =
     (Some msg, s\<lparr> lancamentos := filter (\<lambda>r. \<not> (tipo r = v \<and> lost s r)) (lancamentos s),
                    calls := calls s @ [Delete v] \<rparr>)"
  by (simp add: deleteEqTipo_def)

lemma filter_failed_delete:
  "(\<And>x. P x \<Longrightarrow> Q x) \<Longrightarrow> filter P (filter Q xs) = filter P xs"
  by (induction xs) auto

lemma message_1200:
  "js ''da com '' @ showNat 1200 @ js '' lan'' @ t = js ''da com 1200 lan'' @ t"
  by (simp add: showNat.simps js_simps)

lemma showNat_0: "showNat 0 = js ''0''"
  by (simp add: showNat.simps js_simps)

lemma serve_POST:
  "serve (js ''POST'') sheet s =
     (case importBody sheet s of
        None \<Rightarrow> None
      | Some (Inr n, s') \<Rightarrow>
          Some (jsonResponse
                  \<lparr> success = True,
                    message = js ''Importa'' @ [231, 227] @ js ''o conclu'' @ [237] @
                              js ''da com '' @ showNat n @ js '' lan'' @ [231] @
                              js ''amentos de entrada.'',
                    total_importado = Some n \<rparr> 200, s')
      | Some (Inl error, s') \<Rightarrow>
          Some (jsonResponse
                  \<lparr> success = False,
                    message =
                      (case error of
                         Error m \<Rightarrow> m
                       | NonError \<Rightarrow> js ''Erro inesperado na importa'' @ [231, 227] @ js ''o.''),
                    total_importado = None \<rparr> 500, s'))"
  by (simp add: serve_def POST_neq_OPTIONS)

lemma importBody_nonempty:
  assumes "replies s (length (calls s)) = None"
    and "registros \<noteq> []"
    and "chunkArray registros 500 = Some batches"
    and "registros = buildLancamentosEntrada values"
    and "s1 = s\<lparr> lancamentos := filter (\<lambda>r. tipo r \<noteq> js ''Entrada'') (lancamentos s),
                   calls := calls s @ [Delete (js ''Entrada'')] \<rparr>"
  shows "importBody (Inr values) s =
     (case insertLoop batches s1 of
        (Inl e, s2) \<Rightarrow> Some (Inl e, s2)
      | (Inr _, s2) \<Rightarrow> Some (Inr (length registros), s2))"
  using assms(1-3) unfolding assms(4,5)
  by (simp add: importBody_def deleteEqTipo_ok Let_def)


lemma importBody_frame:
  "\<exists>res s'. importBody sheet s = Some (res, s') \<and>
     filter (\<lambda>r. tipo r \<noteq> js ''Entrada'') (lancamentos s') =
       filter (\<lambda>r. tipo r \<noteq> js ''Entrada'') (lancamentos s) \<and>
     (\<exists>cs. calls s' = calls s @ cs \<and>
        (\<forall>c \<in> set cs. case c of Delete v \<Rightarrow> v = js ''Entrada''
                        | Insert lote \<Rightarrow> (\<forall>r \<in> set lote. tipo r = js ''Entrada'')))"
proof (cases sheet)
  case (Inl e)
  then show ?thesis by (simp add: importBody_def)
next
  case (Inr vals)
  define registros where "registros = buildLancamentosEntrada vals"
  define s1 where "s1 = s\<lparr> lancamentos := filter (\<lambda>r. tipo r \<noteq> js ''Entrada'') (lancamentos s),
                              calls := calls s @ [Delete (js ''Entrada'')] \<rparr>"
  show ?thesis
  proof (cases "replies s (length (calls s))")
    case (Some msg)
    let ?s' = "s\<lparr> lancamentos :=
                    filter (\<lambda>r. \<not> (tipo r = js ''Entrada'' \<and> lost s r)) (lancamentos s),
                  calls := calls s @ [Delete (js ''Entrada'')] \<rparr>"
    have ib: "importBody sheet s =
        Some (Inl (Error (js ''Falha ao apagar lan'' @ [231] @
                          js ''amentos de entrada: '' @ msg)), ?s')"
      unfolding Inr by (simp add: importBody_def deleteEqTipo_fail [OF Some])
    have ff: "filter (\<lambda>r. tipo r \<noteq> js ''Entrada'') (lancamentos ?s') =
        filter (\<lambda>r. tipo r \<noteq> js ''Entrada'') (lancamentos s)"
      by (simp del: filter_filter) (rule filter_failed_delete, simp)
    have cs: "calls ?s' = calls s @ [Delete (js ''Entrada'')]"
      by simp
    show ?thesis
      by (intro exI conjI, rule ib, rule ff, rule cs, simp)
  next
    case None
    show ?thesis
    proof (cases "registros = []")
      case True
      then show ?thesis
        by (simp add: Inr importBody_def deleteEqTipo_ok [OF None] registros_def)
    next
      case False
      from chunkArray_total [of 500 registros] obtain batches
        where b: "chunkArray registros 500 = Some batches" "concat batches = registros"
        by auto
      have tp: "tipo r = js ''Entrada''" if "r \<in> set (concat batches)" for r
        using that tipo_build [of r vals] by (simp add: b(2) registros_def)
      obtain res s2 where l: "insertLoop batches s1 = (res, s2)"
        by (cases "insertLoop batches s1")
      from insertLoop_frame [of batches "js ''Entrada''" s1, OF tp] l obtain n where
        f: "filter (\<lambda>r. tipo r \<noteq> js ''Entrada'') (lancamentos s2) =
              filter (\<lambda>r. tipo r \<noteq> js ''Entrada'') (lancamentos s1)"
        and c: "calls s2 = calls s1 @ map Insert (take n batches)"
        by auto
      have body: "importBody sheet s =
          (case insertLoop batches s1 of
             (Inl e, s2) \<Rightarrow> Some (Inl e, s2)
           | (Inr _, s2) \<Rightarrow> Some (Inr (length registros), s2))"
        unfolding Inr by (rule importBody_nonempty [OF None False b(1) registros_def s1_def])
      then obtain res' where r: "importBody sheet s = Some (res', s2)"
        by (cases res) (simp_all add: l)
      have "filter (\<lambda>r. tipo r \<noteq> js ''Entrada'') (lancamentos s2) =
              filter (\<lambda>r. tipo r \<noteq> js ''Entrada'') (lancamentos s)"
        by (simp add: f s1_def)
      moreover have "calls s2 = calls s @ Delete (js ''Entrada'') # map Insert (take n batches)"
        by (simp add: c s1_def)
      moreover have "\<forall>c \<in> set (Delete (js ''Entrada'') # map Insert (take n batches)).
          case c of Delete v \<Rightarrow> v = js ''Entrada''
          | Insert lote \<Rightarrow> (\<forall>r \<in> set lote. tipo r = js ''Entrada'')"
      proof -
        have "tipo r = js ''Entrada''" if "lote \<in> set (take n batches)" "r \<in> set lote" for lote r
        proof -
          from that(1) have "lote \<in> set batches" by (rule in_set_takeD)
          with that(2) show ?thesis by (intro tp) auto
        qed
        then show ?thesis by auto
      qed
      ultimately show ?thesis using r by blast
    qed
  qed
qed


lemma tipo_old: "tipo oldSaida \<noteq> js ''Entrada''" "tipo oldEntrada = js ''Entrada''"
  by (simp_all add: oldSaida_def oldEntrada_def js_simps)

lemma build_values1200:
  "buildLancamentosEntrada values1200 = replicate 1200 (registroOf (Some sampleRow))"
  by (simp add: build_map_filter values1200_def included_sampleRow)

lemma build_short: "buildLancamentosEntrada [Some headerRow, Some (take 10 sampleRow)] = []"
  by (simp add: build_map_filter not_included_short)


subsection \<open>The replacement of the records of the category\<close>

text \<open>
  C1: with 1200 normalized records, \<open>chunkArray\<close> gives exactly three batches, of 500,
  500 and 200 records, whose concatenation is the record sequence in its order. When
  the delete and the three inserts succeed, the handler sends the delete and then the
  three batches in that order. When the delete and the first insert succeed and the
  second insert fails, the handler sends the delete and the first two batches only (the
  third is never sent), answers with status 500 and the body \<open>success = false\<close> with
  the message of the failed insert and no \<open>total_importado\<close>, and the table holds the
  rows of the first batch after the rows the delete left. The answer when all calls
  succeed has status 200 and the body \<open>success = true\<close> with \<open>total_importado = 1200\<close>.
\<close>

theorem batch_replacement_1200:
  "length (buildLancamentosEntrada values) = 1200 \<Longrightarrow>
   replies s (length (calls s)) = None \<Longrightarrow>
   (let registros = buildLancamentosEntrada values;
        b1 = take 500 registros; b2 = take 500 (drop 500 registros); b3 = drop 1000 registros;
        k = length (calls s);
        kept = filter (\<lambda>r. tipo r \<noteq> js ''Entrada'') (lancamentos s)
    in chunkArray registros 500 = Some [b1, b2, b3] \<and>
       map length [b1, b2, b3] = [500, 500, 200] \<and> b1 @ b2 @ b3 = registros \<and>
       (replies s (k + 1) = None \<and> replies s (k + 2) = None \<and> replies s (k + 3) = None \<longrightarrow>
          (\<exists>resp s'. serve (js ''POST'') (Inr values) s = Some (resp, s') \<and>
              resp_status resp = 200 \<and>
              resp_body resp =
                Json \<lparr> success = True,
                       message = js ''Importa'' @ [231, 227] @ js ''o conclu'' @ [237] @
                                 js ''da com 1200 lan'' @ [231] @ js ''amentos de entrada.'',
                       total_importado = Some 1200 \<rparr> \<and>
              calls s' = calls s @ [Delete (js ''Entrada''), Insert b1, Insert b2, Insert b3] \<and>
              lancamentos s' = kept @ registros)) \<and>
       (\<forall>msg. replies s (k + 1) = None \<and> replies s (k + 2) = Some msg \<longrightarrow>
          (\<exists>resp s'. serve (js ''POST'') (Inr values) s = Some (resp, s') \<and>
              resp_status resp = 500 \<and>
              resp_body resp =
                Json \<lparr> success = False,
                       message = js ''Falha ao inserir lan'' @ [231] @ js ''amentos: '' @ msg,
                       total_importado = None \<rparr> \<and>
              calls s' = calls s @ [Delete (js ''Entrada''), Insert b1, Insert b2] \<and>
              lancamentos s' = kept @ b1)))"
proof -
  assume len: "length (buildLancamentosEntrada values) = 1200"
    and del: "replies s (length (calls s)) = None"
  define registros where "registros = buildLancamentosEntrada values"
  define b1 where "b1 = take 500 registros"
  define b2 where "b2 = take 500 (drop 500 registros)"
  define b3 where "b3 = drop 1000 registros"
  define k where "k = length (calls s)"
  define kept where "kept = filter (\<lambda>r. tipo r \<noteq> js ''Entrada'') (lancamentos s)"
  define s1 where "s1 = s\<lparr> lancamentos := filter (\<lambda>r. tipo r \<noteq> js ''Entrada'') (lancamentos s),
                              calls := calls s @ [Delete (js ''Entrada'')] \<rparr>"
  have len': "length registros = 1200" by (simp add: registros_def len)
  have ne: "registros \<noteq> []" using len' by auto
  have chunks: "chunkArray registros 500 = Some [b1, b2, b3]"
    unfolding b1_def b2_def b3_def by (rule chunkArray_1200 [OF len'])
  have sizes: "map length [b1, b2, b3] = [500, 500, 200]"
    by (simp add: b1_def b2_def b3_def len')
  have "b2 @ b3 = drop 500 registros"
  proof -
    have "drop 1000 registros = drop 500 (drop 500 registros)" by simp
    then show ?thesis by (simp only: b2_def b3_def append_take_drop_id)
  qed
  then have cat: "b1 @ b2 @ b3 = registros" by (simp add: b1_def)
  have body: "importBody (Inr values) s =
      (case insertLoop [b1, b2, b3] s1 of
         (Inl e, s2) \<Rightarrow> Some (Inl e, s2)
       | (Inr _, s2) \<Rightarrow> Some (Inr (length registros), s2))"
    by (rule importBody_nonempty [OF del ne chunks registros_def s1_def])
  have s1_calls: "length (calls s1) = k + 1" and s1_replies: "replies s1 = replies s"
    by (simp_all add: s1_def k_def)
  have ok: "\<exists>resp s'. serve (js ''POST'') (Inr values) s = Some (resp, s') \<and>
              resp_status resp = 200 \<and>
              resp_body resp =
                Json \<lparr> success = True,
                       message = js ''Importa'' @ [231, 227] @ js ''o conclu'' @ [237] @
                                 js ''da com 1200 lan'' @ [231] @ js ''amentos de entrada.'',
                       total_importado = Some 1200 \<rparr> \<and>
              calls s' = calls s @ [Delete (js ''Entrada''), Insert b1, Insert b2, Insert b3] \<and>
              lancamentos s' = kept @ registros"
    if r: "replies s (k + 1) = None" "replies s (k + 2) = None" "replies s (k + 3) = None"
  proof -
    have "insertLoop [b1, b2, b3] s1 =
       (Inr (), s1\<lparr> lancamentos := lancamentos s1 @ concat [b1, b2, b3],
                    calls := calls s1 @ map Insert [b1, b2, b3] \<rparr>)"
    proof (rule insertLoop_ok)
      fix j assume "j < length [b1, b2, b3]"
      then have "j = 0 \<or> j = 1 \<or> j = 2" by auto
      with r show "replies s1 (length (calls s1) + j) = None"
        by (auto simp: s1_calls s1_replies numeral_2_eq_2 numeral_3_eq_3)
    qed
    then have "serve (js ''POST'') (Inr values) s =
        Some (jsonResponse
                \<lparr> success = True,
                  message = js ''Importa'' @ [231, 227] @ js ''o conclu'' @ [237] @
                            js ''da com '' @ showNat 1200 @ js '' lan'' @ [231] @
                            js ''amentos de entrada.'',
                  total_importado = Some 1200 \<rparr> 200,
              s1\<lparr> lancamentos := lancamentos s1 @ concat [b1, b2, b3],
                  calls := calls s1 @ map Insert [b1, b2, b3] \<rparr>)"
      by (simp add: serve_POST body len')
    then show ?thesis
      by (simp add: jsonResponse_def s1_def cat kept_def message_1200)
  qed
  have fail: "\<exists>resp s'. serve (js ''POST'') (Inr values) s = Some (resp, s') \<and>
              resp_status resp = 500 \<and>
              resp_body resp =
                Json \<lparr> success = False,
                       message = js ''Falha ao inserir lan'' @ [231] @ js ''amentos: '' @ msg,
                       total_importado = None \<rparr> \<and>
              calls s' = calls s @ [Delete (js ''Entrada''), Insert b1, Insert b2] \<and>
              lancamentos s' = kept @ b1"
    if r: "replies s (k + 1) = None" "replies s (k + 2) = Some msg" for msg
  proof -
    have "insertLoop [b1, b2, b3] s1 =
       (Inl (Error (js ''Falha ao inserir lan'' @ [231] @ js ''amentos: '' @ msg)),
        s1\<lparr> lancamentos := lancamentos s1 @ concat (take 1 [b1, b2, b3]),
            calls := calls s1 @ map Insert (take (Suc 1) [b1, b2, b3]) \<rparr>)"
    proof (rule insertLoop_fail)
      show "1 < length [b1, b2, b3]" by simp
      show "replies s1 (length (calls s1) + i) = None" if "i < 1" for i
        using that r(1) by (simp add: s1_calls s1_replies)
      show "replies s1 (length (calls s1) + 1) = Some msg"
        using r(2) by (simp add: s1_calls s1_replies numeral_2_eq_2)
    qed
    then show ?thesis
      by (simp add: serve_POST body jsonResponse_def s1_def kept_def)
  qed
  from chunks sizes cat ok fail show ?thesis
    unfolding Let_def registros_def [symmetric] b1_def [symmetric] b2_def [symmetric]
      b3_def [symmetric] k_def [symmetric] kept_def [symmetric]
    by blast
qed

text \<open>A sheet of 1200 valid rows against a store whose third call (the second insert) fails.\<close>

theorem batch_replacement_1200_witness:
  "chunkArray (replicate 1200 (registroOf (Some sampleRow))) 500 =
     Some [replicate 500 (registroOf (Some sampleRow)),
           replicate 500 (registroOf (Some sampleRow)),
           replicate 200 (registroOf (Some sampleRow))] \<and>
   (\<exists>resp s'. serve (js ''POST'') (Inr values1200)
            (sampleStore (\<lambda>k. if k = 2 then Some (js ''timeout'') else None)) =
          Some (resp, s') \<and>
        resp_status resp = 500 \<and>
        resp_body resp =
          Json \<lparr> success = False,
                 message = js ''Falha ao inserir lan'' @ [231] @ js ''amentos: '' @
                           js ''timeout'',
                 total_importado = None \<rparr> \<and>
        calls s' = [Delete (js ''Entrada''),
                    Insert (replicate 500 (registroOf (Some sampleRow))),
                    Insert (replicate 500 (registroOf (Some sampleRow)))] \<and>
        lancamentos s' = oldSaida # replicate 500 (registroOf (Some sampleRow)))"
proof -
  let ?s = "sampleStore (\<lambda>k. if k = 2 then Some (js ''timeout'') else None)"
  have l: "length (buildLancamentosEntrada values1200) = 1200"
    by (simp add: build_values1200)
  have d: "replies ?s (length (calls ?s)) = None"
    by (simp add: sampleStore_def)
  from batch_replacement_1200 [OF l d] show ?thesis
    by (simp add: Let_def build_values1200 sampleStore_def tipo_old)
qed

text \<open>
  C5: when the normalized record sequence is empty, the handler sends the delete
  filtered on \<open>tipo = "Entrada"\<close> and no other call, so no insert. When that delete
  succeeds, the response has status 200 and its body is the payload with
  \<open>success = true\<close>, the completion message and \<open>total_importado = 0\<close> (the key the
  specification calls \<open>total_imported\<close>); the payload is of the record type with the
  fields \<open>success\<close>, \<open>message\<close> and the optional \<open>total_importado\<close>.
\<close>

theorem empty_import_still_deletes:
  "buildLancamentosEntrada values = [] \<Longrightarrow>
   (\<exists>resp s'. serve (js ''POST'') (Inr values) s = Some (resp, s') \<and>
       calls s' = calls s @ [Delete (js ''Entrada'')]) \<and>
   (replies s (length (calls s)) = None \<longrightarrow>
     (\<exists>resp s'. serve (js ''POST'') (Inr values) s = Some (resp, s') \<and>
        resp_status resp = 200 \<and>
        resp_body resp =
          Json \<lparr> success = True,
                 message = js ''Importa'' @ [231, 227] @ js ''o conclu'' @ [237] @
                           js ''da com 0 lan'' @ [231] @ js ''amentos de entrada.'',
                 total_importado = Some 0 \<rparr> \<and>
        lancamentos s' = filter (\<lambda>r. tipo r \<noteq> js ''Entrada'') (lancamentos s) \<and>
        calls s' = calls s @ [Delete (js ''Entrada'')]))"
proof (cases "replies s (length (calls s))")
  case None
  assume "buildLancamentosEntrada values = []"
  then show ?thesis
    by (simp add: serve_def POST_neq_OPTIONS importBody_def deleteEqTipo_ok [OF None] None
        showNat_0 js_simps jsonResponse_def)
next
  case (Some msg)
  assume "buildLancamentosEntrada values = []"
  then show ?thesis
    by (simp add: serve_def POST_neq_OPTIONS importBody_def deleteEqTipo_fail [OF Some] Some)
qed

text \<open>A sheet whose only data row is cut to ten cells, against a store that does not fail.\<close>

theorem empty_import_still_deletes_witness:
  "\<exists>resp s'. serve (js ''POST'') (Inr [Some headerRow, Some (take 10 sampleRow)])
            (sampleStore (\<lambda>k. None)) = Some (resp, s') \<and>
        resp_status resp = 200 \<and>
        resp_body resp =
          Json \<lparr> success = True,
                 message = js ''Importa'' @ [231, 227] @ js ''o conclu'' @ [237] @
                           js ''da com 0 lan'' @ [231] @ js ''amentos de entrada.'',
                 total_importado = Some 0 \<rparr> \<and>
        lancamentos s' = [oldSaida] \<and>
        calls s' = [Delete (js ''Entrada'')]"
  using empty_import_still_deletes [OF build_short, of "sampleStore (\<lambda>k. None)"]
  by (simp add: sampleStore_def tipo_old)



text \<open>
  C10: every invocation, with any request method, any outcome of the fetch and any
  replies of the store, returns, and leaves the rows of the table whose \<open>tipo\<close> is not
  \<open>"Entrada"\<close> as they were, in their order. Every call it sends is a delete filtered on
  \<open>tipo = "Entrada"\<close> or an insert of records whose \<open>tipo\<close> is \<open>"Entrada"\<close>, and every
  record the normalizer emits has \<open>tipo = "Entrada"\<close>.
\<close>

theorem other_categories_untouched:
  "(\<exists>resp s'. serve method sheet s = Some (resp, s') \<and>
      filter (\<lambda>r. tipo r \<noteq> js ''Entrada'') (lancamentos s') =
        filter (\<lambda>r. tipo r \<noteq> js ''Entrada'') (lancamentos s) \<and>
      (\<exists>cs. calls s' = calls s @ cs \<and>
         (\<forall>c \<in> set cs. case c of Delete v \<Rightarrow> v = js ''Entrada''
                         | Insert lote \<Rightarrow> (\<forall>r \<in> set lote. tipo r = js ''Entrada'')))) \<and>
   (\<forall>r \<in> set (buildLancamentosEntrada values). tipo r = js ''Entrada'')"
proof -
  have "\<exists>resp s'. serve method sheet s = Some (resp, s') \<and>
      filter (\<lambda>r. tipo r \<noteq> js ''Entrada'') (lancamentos s') =
        filter (\<lambda>r. tipo r \<noteq> js ''Entrada'') (lancamentos s) \<and>
      (\<exists>cs. calls s' = calls s @ cs \<and>
         (\<forall>c \<in> set cs. case c of Delete v \<Rightarrow> v = js ''Entrada''
                         | Insert lote \<Rightarrow> (\<forall>r \<in> set lote. tipo r = js ''Entrada'')))"
  proof (cases "method = js ''POST''")
    case False
    then show ?thesis by (simp add: serve_def)
  next
    case True
    from importBody_frame [of sheet s] obtain res s' where
      i: "importBody sheet s = Some (res, s')"
      and f: "filter (\<lambda>r. tipo r \<noteq> js ''Entrada'') (lancamentos s') =
       filter (\<lambda>r. tipo r \<noteq> js ''Entrada'') (lancamentos s)"
      and c: "\<exists>cs. calls s' = calls s @ cs \<and>
        (\<forall>c \<in> set cs. case c of Delete v \<Rightarrow> v = js ''Entrada''
                        | Insert lote \<Rightarrow> (\<forall>r \<in> set lote. tipo r = js ''Entrada''))"
      by blast
    have "\<exists>resp. serve method sheet s = Some (resp, s')"
      unfolding True serve_POST i by (cases res) simp_all
    with f c show ?thesis by blast
  qed
  then show ?thesis using tipo_build by blast
qed

text \<open>The sample sheet against the table with one outflow and one inflow record.\<close>

theorem other_categories_untouched_witness:
  "(\<exists>resp s'. serve (js ''POST'') (Inr sampleValues) (sampleStore (\<lambda>k. None)) = Some (resp, s') \<and>
      filter (\<lambda>r. tipo r \<noteq> js ''Entrada'') (lancamentos s') = [oldSaida]) \<and>
   tipo (hd (buildLancamentosEntrada sampleValues)) = js ''Entrada''"
proof -
  have "hd (buildLancamentosEntrada sampleValues) \<in> set (buildLancamentosEntrada sampleValues)"
    by (simp add: build_sampleValues)
  with other_categories_untouched
         [of "js ''POST''" "Inr sampleValues" "sampleStore (\<lambda>k. None)" sampleValues]
  have "(\<exists>resp s'. serve (js ''POST'') (Inr sampleValues) (sampleStore (\<lambda>k. None)) = Some (resp, s') \<and>
      filter (\<lambda>r. tipo r \<noteq> js ''Entrada'') (lancamentos s') =
        filter (\<lambda>r. tipo r \<noteq> js ''Entrada'') (lancamentos (sampleStore (\<lambda>k. None)))) \<and>
   tipo (hd (buildLancamentosEntrada sampleValues)) = js ''Entrada''"
    by blast
  then show ?thesis
    by (simp add: sampleStore_def tipo_old)
qed

end
